theory Spec2Isabelle
  imports Main "HOL-Library.Word"
begin

section \<open>The compression layer (libknet/compress.c)\<close>

subsection \<open>Data model\<close>

text \<open>
  The table \<open>compress_modules_cmds\<close> holds one \<open>compress_model_t\<close> per algorithm: a name
  and five function pointers. A pointer is either NULL (\<open>None\<close>) or the address of a
  function of one of the per-algorithm modules (compress_zlib.c, compress_lz4.c, ...).
  Those modules are outside this file, so a function pointer is modelled by the name of
  the function it points to, and what the function does is a parameter (\<open>externs\<close>).
\<close>

datatype init_hook = lzo2_init
datatype fini_hook = lzo2_fini
datatype val_level_hook =
  zlib_val_level | lz4_val_level | lz4hc_val_level | lzo2_val_level | lzma_val_level | bzip2_val_level
datatype compress_hook =
  zlib_compress | lz4_compress | lz4hc_compress | lzo2_compress | lzma_compress | bzip2_compress
datatype decompress_hook =
  zlib_decompress | lz4_decompress | lzo2_decompress | lzma_decompress | bzip2_decompress

record compress_model_t =
  model_name :: "string option"
  init :: "init_hook option"
  fini :: "fini_hook option"
  val_level_f :: "val_level_hook option"
  compress_f :: "compress_hook option"
  decompress_f :: "decompress_hook option"

definition mk_model ::
  "string option \<Rightarrow> init_hook option \<Rightarrow> fini_hook option \<Rightarrow> val_level_hook option \<Rightarrow>
   compress_hook option \<Rightarrow> decompress_hook option \<Rightarrow> compress_model_t" where
  "mk_model n i f v c d =
     \<lparr>model_name = n, init = i, fini = f, val_level_f = v, compress_f = c, decompress_f = d\<rparr>"

text \<open>The table, entry by entry as in the source, with its NULL terminator.\<close>

definition compress_modules_cmds :: "compress_model_t list" where
  "compress_modules_cmds =
    [ mk_model (Some ''none'') None None None None None,
      mk_model (Some ''zlib'') None None (Some zlib_val_level) (Some zlib_compress) (Some zlib_decompress),
      mk_model (Some ''lz4'') None None (Some lz4_val_level) (Some lz4_compress) (Some lz4_decompress),
      mk_model (Some ''lz4hc'') None None (Some lz4hc_val_level) (Some lz4hc_compress) (Some lz4_decompress),
      mk_model (Some ''lzo2'') (Some lzo2_init) (Some lzo2_fini) (Some lzo2_val_level) (Some lzo2_compress) (Some lzo2_decompress),
      mk_model (Some ''lzma'') None None (Some lzma_val_level) (Some lzma_compress) (Some lzma_decompress),
      mk_model (Some ''bzip2'') None None (Some bzip2_val_level) (Some bzip2_compress) (Some bzip2_decompress),
      mk_model None None None None None None ]"

text \<open>
  C does not check array bounds and does not check a function pointer before the call:
  reading \<open>compress_modules_cmds[idx]\<close> outside the array and calling a NULL pointer are
  undefined behaviour. The model makes both a value.
\<close>

datatype fault = Out_of_bounds | Null_call

definition cmds_at :: "int \<Rightarrow> compress_model_t option" where
  "cmds_at idx =
     (if 0 \<le> idx \<and> idx < int (length compress_modules_cmds)
      then Some (compress_modules_cmds ! nat idx) else None)"

text \<open>The fields of the handle that compress.c reads and writes; \<open>priv\<close> stands for
  the rest of the handle (the algorithms' private data among it).\<close>

record 'p knet_handle =
  compress_model :: int
  compress_level :: int
  compress_threshold :: "32 word"
  compress_max_model :: int
  priv :: 'p

record knet_handle_compress_cfg =
  cfg_compress_model :: string
  cfg_compress_threshold :: "32 word"
  cfg_compress_level :: int

text \<open>The constants of internals.h and libknet.h that compress.c uses; the headers are
  outside this file, so the constants are parameters.\<close>

record knet_consts =
  KNET_MAX_COMPRESS_METHODS :: int
  KNET_MAX_PACKET_SIZE :: "32 word"
  KNET_COMPRESS_THRESHOLD :: "32 word"

definition EINVAL :: int where
  "EINVAL = 22"

text \<open>
  What the functions behind the pointers do. \<open>init\<close> and \<open>fini\<close> receive the handle
  and the method index and may change the handle; \<open>val_level\<close> receives the handle and a
  level and answers with a verdict (negative: rejected); the codecs receive the handle,
  the input buffer and the capacity of the output buffer and answer with a return value
  and the bytes written.
\<close>

record 'p externs =
  call_init :: "init_hook \<Rightarrow> 'p knet_handle \<Rightarrow> int \<Rightarrow> int \<times> 'p knet_handle"
  call_fini :: "fini_hook \<Rightarrow> 'p knet_handle \<Rightarrow> int \<Rightarrow> 'p knet_handle"
  call_val_level :: "val_level_hook \<Rightarrow> 'p knet_handle \<Rightarrow> int \<Rightarrow> int"
  call_compress :: "compress_hook \<Rightarrow> 'p knet_handle \<Rightarrow> 8 word list \<Rightarrow> nat \<Rightarrow> int \<times> 8 word list"
  call_decompress :: "decompress_hook \<Rightarrow> 'p knet_handle \<Rightarrow> 8 word list \<Rightarrow> nat \<Rightarrow> int \<times> 8 word list"

text \<open>The calls made through the table, in the order they are made.\<close>

datatype hook_call =
  Call_init init_hook int
| Call_fini fini_hook int
| Call_val_level val_level_hook int
| Call_compress compress_hook
| Call_decompress decompress_hook

record 'p world =
  knet_h :: "'p knet_handle"
  errno :: int
  calls :: "hook_call list"

subsection \<open>Table lookups\<close>

definition get_model_by_idx :: "int \<Rightarrow> fault + string option" where
  "get_model_by_idx idx =
     (case cmds_at idx of None \<Rightarrow> Inl Out_of_bounds | Some e \<Rightarrow> Inr (model_name e))"

text \<open>\<open>get_model\<close>: the loop from \<open>idx\<close> on; \<open>strcmp\<close> on two C strings is equality.\<close>

function get_model_from :: "int \<Rightarrow> string \<Rightarrow> fault + int" where
  "get_model_from idx model =
     (case cmds_at idx of
        None \<Rightarrow> Inl Out_of_bounds
      | Some e \<Rightarrow>
          (case model_name e of
             None \<Rightarrow> Inr (- 1)
           | Some n \<Rightarrow> if n = model then Inr idx else get_model_from (idx + 1) model))"
  by pat_completeness auto
termination
  by (relation "measure (\<lambda>(idx, model). nat (8 - idx))") (auto simp: cmds_at_def compress_modules_cmds_def split: if_splits)

definition get_model :: "string \<Rightarrow> fault + int" where
  "get_model model = get_model_from 0 model"

function get_max_model_from :: "int \<Rightarrow> fault + int" where
  "get_max_model_from idx =
     (case cmds_at idx of
        None \<Rightarrow> Inl Out_of_bounds
      | Some e \<Rightarrow>
          (case model_name e of
             None \<Rightarrow> Inr (idx - 1)
           | Some n \<Rightarrow> get_max_model_from (idx + 1)))"
  by pat_completeness auto
termination
  by (relation "measure (\<lambda>idx. nat (8 - idx))") (auto simp: cmds_at_def compress_modules_cmds_def split: if_splits)

definition get_max_model :: "fault + int" where
  "get_max_model = get_max_model_from 0"

definition record_call :: "hook_call \<Rightarrow> 'p world \<Rightarrow> 'p world" where
  "record_call c w = w\<lparr>calls := calls w @ [c]\<rparr>"

definition val_level ::
  "'p externs \<Rightarrow> 'p world \<Rightarrow> int \<Rightarrow> int \<Rightarrow> fault + (int \<times> 'p world)" where
  "val_level X w cm lvl =
     (case cmds_at cm of
        None \<Rightarrow> Inl Out_of_bounds
      | Some e \<Rightarrow>
          (case val_level_f e of
             None \<Rightarrow> Inl Null_call
           | Some f \<Rightarrow> Inr (call_val_level X f (knet_h w) lvl, record_call (Call_val_level f lvl) w)))"

subsection \<open>compress\_init\<close>

text \<open>The loop of the branch for an absent configuration, from \<open>idx\<close> on. The result
  is the value compress\_init returns there, with the state it leaves.\<close>

function init_loop :: "'p externs \<Rightarrow> 'p world \<Rightarrow> int \<Rightarrow> fault + (int \<times> 'p world)" where
  "init_loop X w idx =
     (case cmds_at idx of
        None \<Rightarrow> Inl Out_of_bounds
      | Some e \<Rightarrow>
          (case model_name e of
             None \<Rightarrow> Inr (0, w)
           | Some n \<Rightarrow>
               (case init e of
                  None \<Rightarrow> init_loop X w (idx + 1)
                | Some f \<Rightarrow>
                    (if fst (call_init X f (knet_h w) idx) < 0
                     then Inr (- 1,
                       (record_call (Call_init f idx) w)
                         \<lparr>knet_h := snd (call_init X f (knet_h w) idx), errno := EINVAL\<rparr>)
                     else init_loop X
                       ((record_call (Call_init f idx) w)
                         \<lparr>knet_h := snd (call_init X f (knet_h w) idx)\<rparr>) (idx + 1)))))"
  by pat_completeness auto
termination
  by (relation "measure (\<lambda>(X, w, idx). nat (8 - idx))")
    (auto simp: cmds_at_def compress_modules_cmds_def split: if_splits)

text \<open>The stores at the end of compress\_init (lines 141 and 142).\<close>

definition store_selection :: "int \<Rightarrow> int \<Rightarrow> 'p world \<Rightarrow> 'p world" where
  "store_selection cmp_model lvl w =
     w\<lparr>knet_h := (knet_h w)\<lparr>compress_model := cmp_model, compress_level := lvl\<rparr>\<rparr>"

definition store_threshold :: "32 word \<Rightarrow> 'p world \<Rightarrow> 'p world" where
  "store_threshold t w = w\<lparr>knet_h := (knet_h w)\<lparr>compress_threshold := t\<rparr>\<rparr>"

definition fail_EINVAL :: "'p world \<Rightarrow> fault + (int \<times> 'p world)" where
  "fail_EINVAL w = Inr (- 1, w\<lparr>errno := EINVAL\<rparr>)"

text \<open>The branch for a present configuration (lines 113 to 144).\<close>

definition init_cfg ::
  "'p externs \<Rightarrow> knet_consts \<Rightarrow> 'p world \<Rightarrow> knet_handle_compress_cfg \<Rightarrow> fault + (int \<times> 'p world)" where
  "init_cfg X K w cfg =
     (case get_model (cfg_compress_model cfg) of
        Inl f \<Rightarrow> Inl f
      | Inr cmp_model \<Rightarrow>
          if cmp_model < 0 then fail_EINVAL w
          else if cmp_model > 0 then
            (case val_level X w cmp_model (cfg_compress_level cfg) of
               Inl f \<Rightarrow> Inl f
             | Inr (r, w') \<Rightarrow>
                 if r < 0 then fail_EINVAL w'
                 else if cfg_compress_threshold cfg > KNET_MAX_PACKET_SIZE K then fail_EINVAL w'
                 else if cfg_compress_threshold cfg = 0
                   then Inr (0, store_selection cmp_model (cfg_compress_level cfg)
                                  (store_threshold (KNET_COMPRESS_THRESHOLD K) w'))
                   else Inr (0, store_selection cmp_model (cfg_compress_level cfg)
                                  (store_threshold (cfg_compress_threshold cfg) w')))
          else Inr (0, store_selection cmp_model (cfg_compress_level cfg) w))"

definition compress_init ::
  "'p externs \<Rightarrow> knet_consts \<Rightarrow> 'p world \<Rightarrow> knet_handle_compress_cfg option \<Rightarrow>
   fault + (int \<times> 'p world)" where
  "compress_init X K w knet_handle_compress_cfg =
     (case get_max_model of
        Inl f \<Rightarrow> Inl f
      | Inr mm \<Rightarrow>
          (let w1 = w\<lparr>knet_h := (knet_h w)\<lparr>compress_max_model := mm\<rparr>\<rparr> in
           if compress_max_model (knet_h w1) > KNET_MAX_COMPRESS_METHODS K then fail_EINVAL w1
           else (case knet_handle_compress_cfg of
                   None \<Rightarrow> init_loop X w1 0
                 | Some cfg \<Rightarrow> init_cfg X K w1 cfg)))"

subsection \<open>compress\_fini, compress, decompress\<close>

function fini_loop :: "'p externs \<Rightarrow> knet_consts \<Rightarrow> 'p world \<Rightarrow> int \<Rightarrow> fault + 'p world" where
  "fini_loop X K w idx =
     (case cmds_at idx of
        None \<Rightarrow> Inl Out_of_bounds
      | Some e \<Rightarrow>
          (if model_name e \<noteq> None \<and> idx < KNET_MAX_COMPRESS_METHODS K
           then (case fini e of
                   None \<Rightarrow> fini_loop X K w (idx + 1)
                 | Some f \<Rightarrow>
                     fini_loop X K
                       ((record_call (Call_fini f idx) w)\<lparr>knet_h := call_fini X f (knet_h w) idx\<rparr>)
                       (idx + 1))
           else Inr w))"
  by pat_completeness auto
termination
  by (relation "measure (\<lambda>(X, K, w, idx). nat (8 - idx))")
    (auto simp: cmds_at_def compress_modules_cmds_def split: if_splits)

definition compress_fini :: "'p externs \<Rightarrow> knet_consts \<Rightarrow> 'p world \<Rightarrow> fault + 'p world" where
  "compress_fini X K w = fini_loop X K w 0"

definition compress ::
  "'p externs \<Rightarrow> 'p world \<Rightarrow> 8 word list \<Rightarrow> nat \<Rightarrow> fault + ((int \<times> 8 word list) \<times> 'p world)" where
  "compress X w buf_in buf_out_len =
     (case cmds_at (compress_model (knet_h w)) of
        None \<Rightarrow> Inl Out_of_bounds
      | Some e \<Rightarrow>
          (case compress_f e of
             None \<Rightarrow> Inl Null_call
           | Some f \<Rightarrow>
               Inr (call_compress X f (knet_h w) buf_in buf_out_len, record_call (Call_compress f) w)))"

definition decompress ::
  "'p externs \<Rightarrow> 'p world \<Rightarrow> int \<Rightarrow> 8 word list \<Rightarrow> nat \<Rightarrow>
   fault + ((int \<times> 8 word list) \<times> 'p world)" where
  "decompress X w cm buf_in buf_out_len =
     (case cmds_at cm of
        None \<Rightarrow> Inl Out_of_bounds
      | Some e \<Rightarrow>
          (case decompress_f e of
             None \<Rightarrow> Inl Null_call
           | Some f \<Rightarrow>
               Inr (call_decompress X f (knet_h w) buf_in buf_out_len, record_call (Call_decompress f) w)))"

subsection \<open>The fini hook of an algorithm\<close>

text \<open>
  Modelled from the spec: the per-algorithm modules (compress\_lzo2.c among them) are not
  among the files at hand, so what \<open>lzo2_fini\<close> does is not in the source. Section 3 of
  the specification says that the compression layer owns per-algorithm scratch state
  keyed by handle; section 4.2 that an algorithm may declare an init and a fini hook and
  that \<open>fini\<close> is idempotent; section 8 that \<open>fini\<close> is safe to call when \<open>init\<close> has
  not been called. The rest of the handle (\<open>priv\<close>) is then the table of private data,
  one slot per method index, empty (\<open>None\<close>) until an init hook fills it; the fini hook
  of a method releases the slot of that method and touches nothing else.
\<close>

definition release_private_data ::
  "fini_hook \<Rightarrow> (int \<Rightarrow> 'b option) knet_handle \<Rightarrow> int \<Rightarrow> (int \<Rightarrow> 'b option) knet_handle" where
  "release_private_data f h method_idx = h\<lparr>priv := (priv h)(method_idx := None)\<rparr>"

section \<open>The test harness (libknet/tests)\<close>

subsection \<open>dyn\_knet\_link\_set\_config and FAIL\_ON\_ERR (fun\_dynamic\_check.c)\<close>

text \<open>
  Modelled from the spec: \<open>knet_strtoaddr\<close> and \<open>knet_link_set_config\<close> belong to the
  library core, which is not among the files at hand. Section 7 of the specification
  says that a configuration call reports an error synchronously with its kind; in C, as
  compress\_init does above, that is the return value 0, or -1 with errno set. Within one
  run of the port loop the handle, host, link, transport and flags are fixed, so the
  outcome of a call is a function of the addresses it is given.
\<close>

datatype api_result = Api_ok | Api_error int

fun api_ret :: "api_result \<Rightarrow> int" where
  "api_ret Api_ok = 0"
| "api_ret (Api_error e) = - 1"

text \<open>The value of errno after a call that was entered with errno 0.\<close>

fun api_errno :: "api_result \<Rightarrow> int" where
  "api_errno Api_ok = 0"
| "api_errno (Api_error e) = e"

type_synonym sockaddr = "string \<times> nat"

record link_api =
  knet_strtoaddr :: "string \<Rightarrow> nat \<Rightarrow> api_result"
  knet_link_set_config :: "8 word \<Rightarrow> sockaddr \<Rightarrow> sockaddr option \<Rightarrow> api_result"

text \<open>Constants of the system headers (Linux values) and of libknet.h.\<close>

definition EADDRINUSE :: int where
  "EADDRINUSE = 98"

definition EPROTONOSUPPORT :: int where
  "EPROTONOSUPPORT = 93"


definition AF_INET :: int where
  "AF_INET = 2"

definition AF_INET6 :: int where
  "AF_INET6 = 10"

definition KNET_TRANSPORT_UDP :: "8 word" where
  "KNET_TRANSPORT_UDP = 1"

definition KNET_TRANSPORT_SCTP :: "8 word" where
  "KNET_TRANSPORT_SCTP = 2"

text \<open>
  The port loop from \<open>port\<close> on, with the values of \<open>err\<close> and \<open>savederrno\<close> on
  entry. The result is the return value, errno on return, and \<open>lo0\<close> (\<open>None\<close>: zeroed).
\<close>

function dyn_ports ::
  "link_api \<Rightarrow> 8 word \<Rightarrow> int \<Rightarrow> int \<Rightarrow> string \<Rightarrow> sockaddr option \<Rightarrow>
   nat \<Rightarrow> int \<Rightarrow> int \<Rightarrow> sockaddr option \<Rightarrow> int \<times> int \<times> sockaddr option" where
  "dyn_ports A transport family dynamic addr lo1 port err savederrno lo0 =
     (if port < 65536 then
        (if api_ret (knet_strtoaddr A (if family = AF_INET6 then ''::1'' else addr) port) < 0
         then (api_ret (knet_strtoaddr A (if family = AF_INET6 then ''::1'' else addr) port),
               savederrno, None)
         else
           (let here = (if family = AF_INET6 then ''::1'' else addr, port);
                r = (if dynamic \<noteq> 0 then knet_link_set_config A transport here None
                     else knet_link_set_config A transport here lo1)
            in if api_ret r < 0 \<and> api_errno r \<noteq> EADDRINUSE then
                 (if api_errno r = EPROTONOSUPPORT \<and> transport = KNET_TRANSPORT_SCTP
                  then (- 2, api_errno r, Some here)
                  else (api_ret r, api_errno r, Some here))
               else if api_ret r = 0 then (api_ret r, api_errno r, Some here)
               else dyn_ports A transport family dynamic addr lo1 (port + 1)
                      (api_ret r) (api_errno r) (Some here)))
      else (err, savederrno, lo0))"
  by pat_completeness auto
termination
  by (relation "measure (\<lambda>(A, transport, family, dynamic, addr, lo1, port, err, savederrno, lo0).
        65536 - port)") auto

definition dyn_knet_link_set_config ::
  "link_api \<Rightarrow> 8 word \<Rightarrow> int \<Rightarrow> int \<Rightarrow> string \<Rightarrow> sockaddr option \<Rightarrow>
   int \<times> int \<times> sockaddr option" where
  "dyn_knet_link_set_config A transport family dynamic addr lo1 =
     dyn_ports A transport family dynamic addr lo1 1025 0 0 None"

datatype exit_status = PASS | SKIP | FAIL

text \<open>
  \<open>FAIL_ON_ERR(fn)\<close> with \<open>res\<close> the value of \<open>fn\<close>: \<open>None\<close> when the test goes
  on, the exit status otherwise. (Before it exits the macro stops the receive threads and
  the nodes and closes the pipes; that part has no bearing on the status.)
\<close>

definition FAIL_ON_ERR :: "int \<Rightarrow> exit_status option" where
  "FAIL_ON_ERR res =
     (if res \<noteq> 0 then (if res = - 2 then Some SKIP else Some FAIL) else None)"

subsection \<open>recv\_messages and the end of the test (fun\_dynamic\_check.c)\<close>






subsection \<open>knet\_handle\_stop (test-common.c)\<close>

text \<open>
  Modelled from the spec: the library calls that \<open>knet_handle_stop\<close> makes are not among
  the files at hand. The state and the calls follow sections 3, 4.3, 4.6 and 8 of the
  specification: a handle owns hosts and has a forwarding flag; a host owns an array of
  link slots; a slot is empty or holds a configured link that is enabled or not,
  connected or not; a link is destroyed by \<open>clear_config\<close> and must be disabled before;
  a host must be unreachable (no link connected) before its removal; closing the handle
  requires that no link is still enabled; \<open>clear_config\<close> after \<open>set_enable(false)\<close> is
  idempotent. A call answers 0, or -1 and leaves the state as it was.
\<close>

record link =
  enabled :: bool
  connected :: bool

record host =
  host_id :: nat
  link_slots :: "link option list"

record knet =
  fwd :: bool
  hosts :: "host list"
  freed :: bool

definition find_host :: "knet \<Rightarrow> nat \<Rightarrow> host option" where
  "find_host s hid = find (\<lambda>h. host_id h = hid) (hosts s)"

definition find_link :: "knet \<Rightarrow> nat \<Rightarrow> nat \<Rightarrow> link option" where
  "find_link s hid lid =
     (case find_host s hid of
        None \<Rightarrow> None
      | Some h \<Rightarrow> if lid < length (link_slots h) then link_slots h ! lid else None)"

definition configured_links :: "host \<Rightarrow> nat list" where
  "configured_links h = filter (\<lambda>i. link_slots h ! i \<noteq> None) [0..<length (link_slots h)]"

definition set_slot :: "nat \<Rightarrow> nat \<Rightarrow> link option \<Rightarrow> knet \<Rightarrow> knet" where
  "set_slot hid lid v s =
     s\<lparr>hosts := map (\<lambda>h. if host_id h = hid then h\<lparr>link_slots := (link_slots h)[lid := v]\<rparr> else h)
                    (hosts s)\<rparr>"

definition knet_handle_setfwd :: "knet \<Rightarrow> bool \<Rightarrow> int \<times> knet" where
  "knet_handle_setfwd s flag = (0, s\<lparr>fwd := flag\<rparr>)"

definition knet_host_get_host_list :: "knet \<Rightarrow> int \<times> nat list" where
  "knet_host_get_host_list s = (0, map host_id (hosts s))"

definition knet_link_get_link_list :: "knet \<Rightarrow> nat \<Rightarrow> int \<times> nat list" where
  "knet_link_get_link_list s hid =
     (case find_host s hid of None \<Rightarrow> (- 1, []) | Some h \<Rightarrow> (0, configured_links h))"

definition knet_link_get_enable :: "knet \<Rightarrow> nat \<Rightarrow> nat \<Rightarrow> int \<times> bool" where
  "knet_link_get_enable s hid lid =
     (case find_link s hid lid of None \<Rightarrow> (- 1, False) | Some l \<Rightarrow> (0, enabled l))"

definition knet_link_set_enable :: "knet \<Rightarrow> nat \<Rightarrow> nat \<Rightarrow> bool \<Rightarrow> int \<times> knet" where
  "knet_link_set_enable s hid lid flag =
     (case find_link s hid lid of
        None \<Rightarrow> (- 1, s)
      | Some l \<Rightarrow>
          (0, set_slot hid lid (Some (l\<lparr>enabled := flag, connected := (flag \<and> connected l)\<rparr>)) s))"

definition knet_link_clear_config :: "knet \<Rightarrow> nat \<Rightarrow> nat \<Rightarrow> int \<times> knet" where
  "knet_link_clear_config s hid lid =
     (case find_host s hid of
        None \<Rightarrow> (- 1, s)
      | Some h \<Rightarrow>
          (case find_link s hid lid of
             None \<Rightarrow> (0, s)
           | Some l \<Rightarrow> if enabled l then (- 1, s) else (0, set_slot hid lid None s)))"

definition reachable :: "host \<Rightarrow> bool" where
  "reachable h = list_ex (\<lambda>l. case l of None \<Rightarrow> False | Some x \<Rightarrow> connected x) (link_slots h)"

definition knet_host_remove :: "knet \<Rightarrow> nat \<Rightarrow> int \<times> knet" where
  "knet_host_remove s hid =
     (case find_host s hid of
        None \<Rightarrow> (- 1, s)
      | Some h \<Rightarrow>
          if reachable h then (- 1, s)
          else (0, s\<lparr>hosts := filter (\<lambda>h. host_id h \<noteq> hid) (hosts s)\<rparr>))"

definition any_link_enabled :: "knet \<Rightarrow> bool" where
  "any_link_enabled s =
     list_ex (\<lambda>h. list_ex (\<lambda>l. case l of None \<Rightarrow> False | Some x \<Rightarrow> enabled x) (link_slots h))
       (hosts s)"

definition knet_handle_free :: "knet \<Rightarrow> int \<times> knet" where
  "knet_handle_free s = (if any_link_enabled s then (- 1, s) else (0, s\<lparr>freed := True\<rparr>))"

text \<open>The library calls of \<open>knet_handle_stop\<close>, logged in order, each with the state of
  the handle at the moment of the call.\<close>

datatype api_call =
  Handle_setfwd bool
| Host_get_host_list
| Link_get_link_list nat
| Link_get_enable nat nat
| Link_set_enable nat nat bool
| Link_clear_config nat nat
| Host_remove nat
| Handle_free

record harness =
  st :: knet
  api_log :: "(api_call \<times> knet) list"

definition logged :: "api_call \<Rightarrow> harness \<Rightarrow> harness" where
  "logged c h = h\<lparr>api_log := api_log h @ [(c, st h)]\<rparr>"

text \<open>
  The inner loop of \<open>knet_handle_stop\<close> for the host \<open>hid\<close>: the first list is
  \<open>link_ids\<close> from index \<open>j\<close> on, so its head is \<open>link_ids[j]\<close>. As in the source,
  \<open>knet_link_get_enable\<close> is asked about \<open>link_ids[j]\<close>, while \<open>knet_link_set_enable\<close> and
  \<open>knet_link_clear_config\<close> are given \<open>j\<close>; the value \<open>knet_link_clear_config\<close> returns
  is dropped. The result is -1 where the source returns -1, and 0 at the end of the loop.
\<close>

fun stop_links :: "nat \<Rightarrow> nat list \<Rightarrow> nat \<Rightarrow> harness \<Rightarrow> int \<times> harness" where
  "stop_links hid [] j h = (0, h)"
| "stop_links hid (lid # rest) j h =
     (if fst (knet_link_get_enable (st h) hid lid) \<noteq> 0
      then (- 1, logged (Link_get_enable hid lid) h)
      else if snd (knet_link_get_enable (st h) hid lid)
      then
        (if fst (knet_link_set_enable (st h) hid j False) \<noteq> 0
         then (- 1, (logged (Link_set_enable hid j False) (logged (Link_get_enable hid lid) h))
                      \<lparr>st := snd (knet_link_set_enable (st h) hid j False)\<rparr>)
         else stop_links hid rest (j + 1)
                ((logged (Link_clear_config hid j)
                   ((logged (Link_set_enable hid j False) (logged (Link_get_enable hid lid) h))
                      \<lparr>st := snd (knet_link_set_enable (st h) hid j False)\<rparr>))
                 \<lparr>st := snd (knet_link_clear_config
                                (snd (knet_link_set_enable (st h) hid j False)) hid j)\<rparr>))
      else stop_links hid rest (j + 1)
             ((logged (Link_clear_config hid j) (logged (Link_get_enable hid lid) h))
              \<lparr>st := snd (knet_link_clear_config (st h) hid j)\<rparr>))"

text \<open>The outer loop, over \<open>host_ids\<close>.\<close>

fun stop_hosts :: "nat list \<Rightarrow> harness \<Rightarrow> int \<times> harness" where
  "stop_hosts [] h = (0, h)"
| "stop_hosts (hid # rest) h =
     (if fst (knet_link_get_link_list (st h) hid) \<noteq> 0
      then (- 1, logged (Link_get_link_list hid) h)
      else
        (case stop_links hid (snd (knet_link_get_link_list (st h) hid)) 0
                (logged (Link_get_link_list hid) h) of
           (r, h1) \<Rightarrow>
             if r \<noteq> 0 then (- 1, h1)
             else if fst (knet_host_remove (st h1) hid) < 0
               then (- 1, (logged (Host_remove hid) h1)\<lparr>st := snd (knet_host_remove (st h1) hid)\<rparr>)
               else stop_hosts rest
                      ((logged (Host_remove hid) h1)\<lparr>st := snd (knet_host_remove (st h1) hid)\<rparr>)))"

text \<open>\<open>knet_handle_stop\<close>: the return value, errno if set, and the harness at the end
  (\<open>None\<close> for the NULL handle).\<close>

definition knet_handle_stop :: "knet option \<Rightarrow> int \<times> int option \<times> harness option" where
  "knet_handle_stop knet_h_opt =
     (case knet_h_opt of
        None \<Rightarrow> (- 1, Some EINVAL, None)
      | Some s \<Rightarrow>
          (let h0 = \<lparr>st = s, api_log = []\<rparr>;
               h1 = (logged (Handle_setfwd False) h0)\<lparr>st := snd (knet_handle_setfwd s False)\<rparr>
           in if fst (knet_handle_setfwd s False) < 0 then (- 1, None, Some h1)
              else if fst (knet_host_get_host_list (st h1)) < 0
                then (- 1, None, Some (logged Host_get_host_list h1))
              else
                (case stop_hosts (snd (knet_host_get_host_list (st h1)))
                        (logged Host_get_host_list h1) of
                   (r, h2) \<Rightarrow>
                     if r \<noteq> 0 then (- 1, None, Some h2)
                     else if fst (knet_handle_free (st h2)) \<noteq> 0
                       then (- 1, None,
                             Some ((logged Handle_free h2)\<lparr>st := snd (knet_handle_free (st h2))\<rparr>))
                       else (0, None,
                             Some ((logged Handle_free h2)\<lparr>st := snd (knet_handle_free (st h2))\<rparr>)))))"

text \<open>
  The ordering contract of the teardown, read on the log: a call that changes a link
  finds forwarding off; \<open>clear_config\<close> finds the link it is given disabled; \<open>remove\<close>
  finds no configured link left on the host; \<open>free\<close> finds no host left.
\<close>

definition link_is_enabled :: "knet \<Rightarrow> nat \<Rightarrow> nat \<Rightarrow> bool" where
  "link_is_enabled s hid lid = (case find_link s hid lid of None \<Rightarrow> False | Some l \<Rightarrow> enabled l)"

definition links_left :: "knet \<Rightarrow> nat \<Rightarrow> nat list" where
  "links_left s hid = (case find_host s hid of None \<Rightarrow> [] | Some h \<Rightarrow> configured_links h)"

fun step_in_order :: "api_call \<times> knet \<Rightarrow> bool" where
  "step_in_order (Link_set_enable hid lid flag, s) = (\<not> fwd s)"
| "step_in_order (Link_clear_config hid lid, s) = (\<not> fwd s \<and> \<not> link_is_enabled s hid lid)"
| "step_in_order (Host_remove hid, s) = (links_left s hid = [])"
| "step_in_order (Handle_free, s) = (hosts s = [])"
| "step_in_order (c, s) = True"

definition teardown_in_order :: "(api_call \<times> knet) list \<Rightarrow> bool" where
  "teardown_in_order lg = list_all step_in_order lg"

section \<open>Names used in the statements, and sample inputs\<close>

text \<open>The order of the algorithms as the specification lists it (section 6).\<close>

definition spec_algorithm_order :: "string list" where
  "spec_algorithm_order = [''none'', ''zlib'', ''lz4'', ''lz4hc'', ''lzo2'', ''lzma'', ''bzip2'']"

text \<open>The state after line 89 of compress.c, for the table above.\<close>

definition refresh_max_model :: "'p world \<Rightarrow> 'p world" where
  "refresh_max_model w = w\<lparr>knet_h := (knet_h w)\<lparr>compress_max_model := 6\<rparr>\<rparr>"

definition log_of :: "int \<times> int option \<times> harness option \<Rightarrow> (api_call \<times> knet) list" where
  "log_of r = (case snd (snd r) of None \<Rightarrow> [] | Some h \<Rightarrow> api_log h)"

text \<open>Sample values for the parameters: constants, a handle that was never configured,
  and algorithm modules that accept the levels 0 to 9 and whose hooks do nothing.\<close>

definition sample_consts :: knet_consts where
  "sample_consts =
     \<lparr>KNET_MAX_COMPRESS_METHODS = 255, KNET_MAX_PACKET_SIZE = 65536, KNET_COMPRESS_THRESHOLD = 100\<rparr>"

definition blank_world :: "unit world" where
  "blank_world =
     \<lparr>knet_h = \<lparr>compress_model = 0, compress_level = 0, compress_threshold = 0,
                 compress_max_model = 0, priv = ()\<rparr>,
      errno = 0, calls = []\<rparr>"

definition sample_externs :: "unit externs" where
  "sample_externs =
     \<lparr>call_init = (\<lambda>f h idx. (0, h)),
      call_fini = (\<lambda>f h idx. h),
      call_val_level = (\<lambda>f h lvl. if 0 \<le> lvl \<and> lvl \<le> 9 then 0 else - 1),
      call_compress = (\<lambda>f h b n. (0, b)),
      call_decompress = (\<lambda>f h b n. (0, b))\<rparr>"

text \<open>The same modules, with an \<open>lzo2_init\<close> that fails (as it does when it cannot
  allocate its working memory).\<close>

definition failing_init_externs :: "unit externs" where
  "failing_init_externs = sample_externs\<lparr>call_init := (\<lambda>f h idx. (- 1, h))\<rparr>"

definition zlib_cfg :: knet_handle_compress_cfg where
  "zlib_cfg = \<lparr>cfg_compress_model = ''zlib'', cfg_compress_threshold = 0, cfg_compress_level = 5\<rparr>"

definition zlib_bad_level_cfg :: knet_handle_compress_cfg where
  "zlib_bad_level_cfg =
     \<lparr>cfg_compress_model = ''zlib'', cfg_compress_threshold = 0, cfg_compress_level = 42\<rparr>"

definition unknown_cfg :: knet_handle_compress_cfg where
  "unknown_cfg =
     \<lparr>cfg_compress_model = ''snappy'', cfg_compress_threshold = 0, cfg_compress_level = 1\<rparr>"

definition lz4_cfg :: knet_handle_compress_cfg where
  "lz4_cfg = \<lparr>cfg_compress_model = ''lz4'', cfg_compress_threshold = 500, cfg_compress_level = 3\<rparr>"

definition oversized_cfg :: knet_handle_compress_cfg where
  "oversized_cfg =
     \<lparr>cfg_compress_model = ''bzip2'', cfg_compress_threshold = 70000, cfg_compress_level = 9\<rparr>"

text \<open>Handles whose \<open>priv\<close> is the table of private data: one on which compress\_init has
  never run, and one for which lzo2 holds a working buffer (of 16384 bytes, say).\<close>

definition never_initialised_world :: "(int \<Rightarrow> nat option) world" where
  "never_initialised_world =
     \<lparr>knet_h = \<lparr>compress_model = 0, compress_level = 0, compress_threshold = 0,
                 compress_max_model = 0, priv = (\<lambda>method_idx. None)\<rparr>,
      errno = 0, calls = []\<rparr>"

definition lzo2_ready_world :: "(int \<Rightarrow> nat option) world" where
  "lzo2_ready_world =
     never_initialised_world
       \<lparr>knet_h := (knet_h never_initialised_world)\<lparr>priv := (\<lambda>method_idx. None)(4 := Some 16384)\<rparr>\<rparr>"

definition private_data_externs :: "(int \<Rightarrow> nat option) externs" where
  "private_data_externs =
     \<lparr>call_init = (\<lambda>f h method_idx. (0, h\<lparr>priv := (priv h)(method_idx := Some 16384)\<rparr>)),
      call_fini = release_private_data,
      call_val_level = (\<lambda>f h lvl. if 0 \<le> lvl \<and> lvl \<le> 9 then 0 else - 1),
      call_compress = (\<lambda>f h b n. (0, b)),
      call_decompress = (\<lambda>f h b n. (0, b))\<rparr>"

text \<open>A handle on which zlib is selected.\<close>

definition zlib_world :: "unit world" where
  "zlib_world = blank_world\<lparr>knet_h := (knet_h blank_world)\<lparr>compress_model := 1\<rparr>\<rparr>"

text \<open>What compress\_init leaves when zlib rejects the level 42 on that handle.\<close>

definition bad_level_result :: "unit world" where
  "bad_level_result =
     (record_call (Call_val_level zlib_val_level 42) (refresh_max_model zlib_world))
       \<lparr>errno := EINVAL\<rparr>"

text \<open>A handle with one host whose only configured link sits in slot 1 and is disabled.\<close>

definition gap_state :: knet where
  "gap_state =
     \<lparr>fwd = True,
      hosts = [\<lparr>host_id = 1,
                link_slots = [None, Some \<lparr>enabled = False, connected = False\<rparr>,
                              None, None, None, None, None, None]\<rparr>],
      freed = False\<rparr>"

text \<open>A library in which port 1025 is taken and which answers "protocol not supported"
  on every other port, whatever the transport.\<close>

definition no_sctp_api :: link_api where
  "no_sctp_api =
     \<lparr>knet_strtoaddr = (\<lambda>a p. Api_ok),
      knet_link_set_config =
        (\<lambda>t here dst. if snd here = 1025 then Api_error EADDRINUSE
                       else Api_error EPROTONOSUPPORT)\<rparr>"

text \<open>A handle with two hosts whose links sit in the slots 0 and 1, and 0.\<close>

definition dense_state :: knet where
  "dense_state =
     \<lparr>fwd = True,
      hosts = [\<lparr>host_id = 1,
                link_slots = [Some \<lparr>enabled = True, connected = True\<rparr>,
                              Some \<lparr>enabled = False, connected = False\<rparr>,
                              None, None, None, None, None, None]\<rparr>,
               \<lparr>host_id = 2,
                link_slots = [Some \<lparr>enabled = True, connected = False\<rparr>,
                              None, None, None, None, None, None, None]\<rparr>],
      freed = False\<rparr>"




section \<open>Properties of the compression layer\<close>

subsection \<open>Evaluating the table\<close>

declare get_model_from.simps [simp del]
declare get_max_model_from.simps [simp del]
declare init_loop.simps [simp del]
declare fini_loop.simps [simp del]
declare dyn_ports.simps [simp del]

lemma cmds_at_simps:
  "cmds_at 0 = Some (mk_model (Some ''none'') None None None None None)"
  "cmds_at 1 = Some (mk_model (Some ''zlib'') None None (Some zlib_val_level) (Some zlib_compress) (Some zlib_decompress))"
  "cmds_at 2 = Some (mk_model (Some ''lz4'') None None (Some lz4_val_level) (Some lz4_compress) (Some lz4_decompress))"
  "cmds_at 3 = Some (mk_model (Some ''lz4hc'') None None (Some lz4hc_val_level) (Some lz4hc_compress) (Some lz4_decompress))"
  "cmds_at 4 = Some (mk_model (Some ''lzo2'') (Some lzo2_init) (Some lzo2_fini) (Some lzo2_val_level) (Some lzo2_compress) (Some lzo2_decompress))"
  "cmds_at 5 = Some (mk_model (Some ''lzma'') None None (Some lzma_val_level) (Some lzma_compress) (Some lzma_decompress))"
  "cmds_at 6 = Some (mk_model (Some ''bzip2'') None None (Some bzip2_val_level) (Some bzip2_compress) (Some bzip2_decompress))"
  "cmds_at 7 = Some (mk_model None None None None None None)"
  by (simp_all add: cmds_at_def compress_modules_cmds_def)

lemma mk_model_sel [simp]:
  "model_name (mk_model n i f v c d) = n"
  "init (mk_model n i f v c d) = i"
  "fini (mk_model n i f v c d) = f"
  "val_level_f (mk_model n i f v c d) = v"
  "compress_f (mk_model n i f v c d) = c"
  "decompress_f (mk_model n i f v c d) = d"
  by (simp_all add: mk_model_def)

lemma get_max_model_6: "get_max_model = Inr 6"
  by (simp add: get_max_model_def get_max_model_from.simps cmds_at_simps)

text \<open>The loop of \<open>get_model\<close> in closed form: the first name that matches decides.\<close>

lemma get_model_eq:
  "get_model m =
     Inr (if m = ''none'' then 0 else if m = ''zlib'' then 1 else if m = ''lz4'' then 2
          else if m = ''lz4hc'' then 3 else if m = ''lzo2'' then 4 else if m = ''lzma'' then 5
          else if m = ''bzip2'' then 6 else - 1)"
  by (auto simp add: get_model_def get_model_from.simps cmds_at_simps)

lemma idx_cases:
  "0 \<le> i \<Longrightarrow> i \<le> 6 \<Longrightarrow>
   i = 0 \<or> i = 1 \<or> i = 2 \<or> i = 3 \<or> i = 4 \<or> i = 5 \<or> i = (6::int)"
  by arith

lemma get_model_spec_order:
  assumes "0 \<le> i" and "i \<le> 6"
  shows "get_model (spec_algorithm_order ! nat i) = Inr i"
  using idx_cases [OF assms]
  by (elim disjE) (simp_all add: get_model_eq spec_algorithm_order_def)

lemma name_at:
  assumes "cmds_at i = Some e" and "model_name e = Some m"
  shows "0 \<le> i \<and> i \<le> 6 \<and> m = spec_algorithm_order ! nat i"
proof -
  from assms(1) have lo: "0 \<le> i" and hi: "i \<le> 7"
    by (simp_all add: cmds_at_def compress_modules_cmds_def split: if_splits)
  from assms have nm: "model_name (the (cmds_at i)) = Some m"
    by simp
  have "i \<noteq> 7"
    using nm by (auto simp: cmds_at_simps)
  with hi have hi6: "i \<le> 6"
    by simp
  have "m = spec_algorithm_order ! nat i"
    using idx_cases [OF lo hi6] nm
    by (elim disjE) (simp_all add: cmds_at_simps spec_algorithm_order_def)
  with lo hi6 show ?thesis
    by simp
qed

lemma get_model_at:
  assumes "cmds_at i = Some e" and "model_name e = Some m"
  shows "get_model m = Inr i"
  using name_at [OF assms] by (simp add: get_model_spec_order)

lemma get_model_absent:
  assumes "Some m \<notin> set (map model_name compress_modules_cmds)"
  shows "get_model m = Inr (- 1)"
  using assms by (auto simp: get_model_eq compress_modules_cmds_def)

lemma val_level_at:
  assumes "cmds_at i = Some e" and "val_level_f e = Some vf"
  shows "val_level X w i lvl =
     Inr (call_val_level X vf (knet_h w) lvl, record_call (Call_val_level vf lvl) w)"
  using assms by (simp add: val_level_def)

lemma compress_init_unfold:
  "compress_init X K w c =
     (if 6 > KNET_MAX_COMPRESS_METHODS K then fail_EINVAL (refresh_max_model w)
      else (case c of None \<Rightarrow> init_loop X (refresh_max_model w) 0
                    | Some cfg \<Rightarrow> init_cfg X K (refresh_max_model w) cfg))"
  by (cases c) (simp_all add: compress_init_def get_max_model_6 refresh_max_model_def Let_def)

lemma init_loop_0:
  "init_loop X w 0 =
     (if fst (call_init X lzo2_init (knet_h w) 4) < 0
      then Inr (- 1, (record_call (Call_init lzo2_init 4) w)
                 \<lparr>knet_h := snd (call_init X lzo2_init (knet_h w) 4), errno := EINVAL\<rparr>)
      else Inr (0, (record_call (Call_init lzo2_init 4) w)
                 \<lparr>knet_h := snd (call_init X lzo2_init (knet_h w) 4)\<rparr>))"
  by (simp add: init_loop.simps cmds_at_simps)

lemma fini_loop_0:
  "4 < KNET_MAX_COMPRESS_METHODS K \<Longrightarrow>
   fini_loop X K w 0 =
     Inr ((record_call (Call_fini lzo2_fini 4) w)\<lparr>knet_h := call_fini X lzo2_fini (knet_h w) 4\<rparr>)"
  by (simp add: fini_loop.simps cmds_at_simps)

lemma init_cfg_total:
  "\<exists>r w'. init_cfg X K w cfg = Inr (r, w')"
  by (auto simp: init_cfg_def get_model_eq val_level_def cmds_at_simps fail_EINVAL_def)

lemma init_cfg_error:
  assumes "init_cfg X K w cfg = Inr (r, w')" and "r \<noteq> 0"
  shows "knet_h w' = knet_h w \<and> errno w' = EINVAL \<and> r = - 1"
proof -
  obtain m where gm: "get_model (cfg_compress_model cfg) = Inr m"
    by (simp add: get_model_eq)
  show ?thesis
    using assms
    by (auto simp: init_cfg_def gm fail_EINVAL_def val_level_def record_call_def
        split: if_splits option.splits sum.splits)
qed

subsection \<open>The table and its indices\<close>

text \<open>
  C1. The positions 0 to 6 of the table hold, in this order, none, zlib, lz4, lz4hc,
  lzo2, lzma and bzip2 (position 0 is the sentinel "none", position 7 the NULL
  terminator, so 6 is the highest index); and for every index \<open>i\<close> from 0 to 6, looking
  the name at \<open>i\<close> up in the table gives \<open>i\<close> back.
\<close>

theorem compress_table_indices:
  assumes "0 \<le> i" and "i \<le> 6"
  shows "get_model_by_idx i = Inr (Some (spec_algorithm_order ! nat i)) \<and>
         get_model (spec_algorithm_order ! nat i) = Inr i \<and>
         get_model_by_idx 0 = Inr (Some ''none'') \<and>
         get_model_by_idx 7 = Inr None \<and>
         get_max_model = Inr 6"
  using idx_cases [OF assms]
  by (elim disjE)
    (simp_all add: get_model_by_idx_def cmds_at_simps get_model_eq spec_algorithm_order_def
      get_max_model_6)

theorem compress_table_indices_witness:
  "(0::int) \<le> 4 \<and> (4::int) \<le> 6 \<and>
   get_model_by_idx 4 = Inr (Some ''lzo2'') \<and> get_model ''lzo2'' = Inr 4"
  using compress_table_indices [of 4] by (simp add: spec_algorithm_order_def)

subsection \<open>compress\_init with a configuration\<close>

text \<open>
  C2. Let the table fit the bound \<open>KNET_MAX_COMPRESS_METHODS\<close>, and let the configuration
  name the algorithm at an index \<open>i > 0\<close> whose level validation accepts the level of
  the configuration. Then compress\_init fails with -1 and errno EINVAL when the
  threshold of the configuration exceeds \<open>KNET_MAX_PACKET_SIZE\<close> (the selection on the
  handle stays as it was); otherwise it returns 0 and the handle holds
  \<open>compress_model = i\<close>, \<open>compress_level\<close> the level of the configuration, and
  \<open>compress_threshold\<close> the default \<open>KNET_COMPRESS_THRESHOLD\<close> when the configuration
  says 0 and the configured threshold when it says anything else. Every field of the
  state after the call is written out.
\<close>

theorem compress_init_cfg_stores:
  assumes fits: "6 \<le> KNET_MAX_COMPRESS_METHODS K"
    and entry: "cmds_at i = Some e" "0 < i" "model_name e = Some (cfg_compress_model cfg)"
    and level: "val_level_f e = Some vf"
       "\<not> call_val_level X vf ((knet_h w)\<lparr>compress_max_model := 6\<rparr>) (cfg_compress_level cfg) < 0"
  shows "compress_init X K w (Some cfg) =
     (if cfg_compress_threshold cfg > KNET_MAX_PACKET_SIZE K
      then Inr (- 1,
             \<lparr>knet_h = \<lparr>compress_model = compress_model (knet_h w),
                        compress_level = compress_level (knet_h w),
                        compress_threshold = compress_threshold (knet_h w),
                        compress_max_model = 6,
                        priv = priv (knet_h w)\<rparr>,
              errno = EINVAL,
              calls = calls w @ [Call_val_level vf (cfg_compress_level cfg)]\<rparr>)
      else Inr (0,
             \<lparr>knet_h = \<lparr>compress_model = i,
                        compress_level = cfg_compress_level cfg,
                        compress_threshold =
                          (if cfg_compress_threshold cfg = 0 then KNET_COMPRESS_THRESHOLD K
                           else cfg_compress_threshold cfg),
                        compress_max_model = 6,
                        priv = priv (knet_h w)\<rparr>,
              errno = errno w,
              calls = calls w @ [Call_val_level vf (cfg_compress_level cfg)]\<rparr>))"
proof -
  have gm: "get_model (cfg_compress_model cfg) = Inr i"
    using entry by (simp add: get_model_at)
  have vl: "val_level X (refresh_max_model w) i (cfg_compress_level cfg) =
      Inr (call_val_level X vf (knet_h (refresh_max_model w)) (cfg_compress_level cfg),
           record_call (Call_val_level vf (cfg_compress_level cfg)) (refresh_max_model w))"
    using entry level by (simp add: val_level_at)
  have accepted: "\<not> call_val_level X vf (knet_h (refresh_max_model w)) (cfg_compress_level cfg) < 0"
    using level(2) by (simp add: refresh_max_model_def)
  have run: "compress_init X K w (Some cfg) =
     (if cfg_compress_threshold cfg > KNET_MAX_PACKET_SIZE K
      then Inr (- 1, (record_call (Call_val_level vf (cfg_compress_level cfg))
                        (refresh_max_model w))\<lparr>errno := EINVAL\<rparr>)
      else Inr (0, store_selection i (cfg_compress_level cfg)
                 (store_threshold
                    (if cfg_compress_threshold cfg = 0 then KNET_COMPRESS_THRESHOLD K
                     else cfg_compress_threshold cfg)
                    (record_call (Call_val_level vf (cfg_compress_level cfg))
                       (refresh_max_model w)))))"
    using fits entry(2) accepted
    by (simp add: compress_init_unfold init_cfg_def gm vl fail_EINVAL_def)
  have failed: "(record_call c (refresh_max_model w))\<lparr>errno := EINVAL\<rparr> =
      \<lparr>knet_h = \<lparr>compress_model = compress_model (knet_h w),
                 compress_level = compress_level (knet_h w),
                 compress_threshold = compress_threshold (knet_h w),
                 compress_max_model = 6,
                 priv = priv (knet_h w)\<rparr>,
       errno = EINVAL, calls = calls w @ [c]\<rparr>" for c
    by (simp add: record_call_def refresh_max_model_def)
  have stored: "store_selection i l (store_threshold t (record_call c (refresh_max_model w))) =
      \<lparr>knet_h = \<lparr>compress_model = i, compress_level = l, compress_threshold = t,
                 compress_max_model = 6, priv = priv (knet_h w)\<rparr>,
       errno = errno w, calls = calls w @ [c]\<rparr>" for l t c
    by (simp add: store_selection_def store_threshold_def record_call_def refresh_max_model_def)
  show ?thesis
    unfolding run failed stored by (rule refl)
qed

theorem compress_init_cfg_stores_witness:
  "compress_init sample_externs sample_consts blank_world (Some zlib_cfg) =
     Inr (0, \<lparr>knet_h = \<lparr>compress_model = 1, compress_level = 5, compress_threshold = 100,
                        compress_max_model = 6, priv = ()\<rparr>,
              errno = 0, calls = [Call_val_level zlib_val_level 5]\<rparr>) \<and>
   compress_init sample_externs sample_consts zlib_world (Some lz4_cfg) =
     Inr (0, \<lparr>knet_h = \<lparr>compress_model = 2, compress_level = 3, compress_threshold = 500,
                        compress_max_model = 6, priv = ()\<rparr>,
              errno = 0, calls = [Call_val_level lz4_val_level 3]\<rparr>) \<and>
   compress_init sample_externs sample_consts zlib_world (Some oversized_cfg) =
     Inr (- 1, \<lparr>knet_h = \<lparr>compress_model = 1, compress_level = 0, compress_threshold = 0,
                          compress_max_model = 6, priv = ()\<rparr>,
                errno = EINVAL, calls = [Call_val_level bzip2_val_level 9]\<rparr>)"
proof -
  have a: "compress_init sample_externs sample_consts blank_world (Some zlib_cfg) =
     Inr (0, \<lparr>knet_h = \<lparr>compress_model = 1, compress_level = 5, compress_threshold = 100,
                        compress_max_model = 6, priv = ()\<rparr>,
              errno = 0, calls = [Call_val_level zlib_val_level 5]\<rparr>)"
    using compress_init_cfg_stores [of sample_consts 1
      "mk_model (Some ''zlib'') None None (Some zlib_val_level) (Some zlib_compress) (Some zlib_decompress)"
      zlib_cfg zlib_val_level sample_externs blank_world]
    by (simp add: cmds_at_simps sample_consts_def sample_externs_def zlib_cfg_def blank_world_def)
  have b: "compress_init sample_externs sample_consts zlib_world (Some lz4_cfg) =
     Inr (0, \<lparr>knet_h = \<lparr>compress_model = 2, compress_level = 3, compress_threshold = 500,
                        compress_max_model = 6, priv = ()\<rparr>,
              errno = 0, calls = [Call_val_level lz4_val_level 3]\<rparr>)"
    using compress_init_cfg_stores [of sample_consts 2
      "mk_model (Some ''lz4'') None None (Some lz4_val_level) (Some lz4_compress) (Some lz4_decompress)"
      lz4_cfg lz4_val_level sample_externs zlib_world]
    by (simp add: cmds_at_simps sample_consts_def sample_externs_def lz4_cfg_def zlib_world_def
        blank_world_def)
  have c: "compress_init sample_externs sample_consts zlib_world (Some oversized_cfg) =
     Inr (- 1, \<lparr>knet_h = \<lparr>compress_model = 1, compress_level = 0, compress_threshold = 0,
                          compress_max_model = 6, priv = ()\<rparr>,
                errno = EINVAL, calls = [Call_val_level bzip2_val_level 9]\<rparr>)"
    using compress_init_cfg_stores [of sample_consts 6
      "mk_model (Some ''bzip2'') None None (Some bzip2_val_level) (Some bzip2_compress) (Some bzip2_decompress)"
      oversized_cfg bzip2_val_level sample_externs zlib_world]
    by (simp add: cmds_at_simps sample_consts_def sample_externs_def oversized_cfg_def
        zlib_world_def blank_world_def)
  from a b c show ?thesis
    by (intro conjI)
qed

text \<open>
  C3. With a configuration present: if its algorithm name is the name of no entry of
  the table, compress\_init returns -1 with errno EINVAL; and if the name is that of the
  entry at an index \<open>i > 0\<close> whose level validation rejects the level of the
  configuration (a negative verdict), compress\_init returns -1 with errno EINVAL as well.
\<close>

theorem compress_init_cfg_rejects:
  "(Some (cfg_compress_model cfg) \<notin> set (map model_name compress_modules_cmds) \<longrightarrow>
      (\<exists>w'. compress_init X K w (Some cfg) = Inr (- 1, w') \<and> errno w' = EINVAL)) \<and>
   (cmds_at i = Some e \<and> 0 < i \<and> model_name e = Some (cfg_compress_model cfg) \<and>
    val_level_f e = Some vf \<and>
    call_val_level X vf (knet_h (refresh_max_model w)) (cfg_compress_level cfg) < 0 \<longrightarrow>
      (\<exists>w'. compress_init X K w (Some cfg) = Inr (- 1, w') \<and> errno w' = EINVAL))"
proof (intro conjI impI)
  assume "Some (cfg_compress_model cfg) \<notin> set (map model_name compress_modules_cmds)"
  then have "get_model (cfg_compress_model cfg) = Inr (- 1)"
    by (rule get_model_absent)
  then show "\<exists>w'. compress_init X K w (Some cfg) = Inr (- 1, w') \<and> errno w' = EINVAL"
    by (simp add: compress_init_unfold init_cfg_def fail_EINVAL_def)
next
  assume a: "cmds_at i = Some e \<and> 0 < i \<and> model_name e = Some (cfg_compress_model cfg) \<and>
    val_level_f e = Some vf \<and>
    call_val_level X vf (knet_h (refresh_max_model w)) (cfg_compress_level cfg) < 0"
  then have gm: "get_model (cfg_compress_model cfg) = Inr i"
    by (simp add: get_model_at)
  have vl: "val_level X (refresh_max_model w) i (cfg_compress_level cfg) =
      Inr (call_val_level X vf (knet_h (refresh_max_model w)) (cfg_compress_level cfg),
           record_call (Call_val_level vf (cfg_compress_level cfg)) (refresh_max_model w))"
    using a by (simp add: val_level_at)
  show "\<exists>w'. compress_init X K w (Some cfg) = Inr (- 1, w') \<and> errno w' = EINVAL"
    using a by (simp add: compress_init_unfold init_cfg_def gm vl fail_EINVAL_def)
qed

theorem compress_init_cfg_rejects_witness:
  "Some (cfg_compress_model unknown_cfg) \<notin> set (map model_name compress_modules_cmds) \<and>
   (\<exists>w'. compress_init sample_externs sample_consts blank_world (Some unknown_cfg) = Inr (- 1, w')
      \<and> errno w' = EINVAL) \<and>
   cmds_at 1 \<noteq> None \<and> model_name (the (cmds_at 1)) = Some (cfg_compress_model zlib_bad_level_cfg) \<and>
   call_val_level sample_externs zlib_val_level (knet_h (refresh_max_model blank_world))
     (cfg_compress_level zlib_bad_level_cfg) < 0 \<and>
   (\<exists>w'. compress_init sample_externs sample_consts blank_world (Some zlib_bad_level_cfg) =
      Inr (- 1, w') \<and> errno w' = EINVAL)"
proof -
  have unknown: "Some (cfg_compress_model unknown_cfg) \<notin> set (map model_name compress_modules_cmds)"
    by (simp add: unknown_cfg_def compress_modules_cmds_def)
  have bad: "cmds_at 1 = Some (mk_model (Some ''zlib'') None None (Some zlib_val_level)
        (Some zlib_compress) (Some zlib_decompress)) \<and> (0::int) < 1 \<and>
      model_name (mk_model (Some ''zlib'') None None (Some zlib_val_level)
        (Some zlib_compress) (Some zlib_decompress)) = Some (cfg_compress_model zlib_bad_level_cfg) \<and>
      val_level_f (mk_model (Some ''zlib'') None None (Some zlib_val_level)
        (Some zlib_compress) (Some zlib_decompress)) = Some zlib_val_level \<and>
      call_val_level sample_externs zlib_val_level (knet_h (refresh_max_model blank_world))
        (cfg_compress_level zlib_bad_level_cfg) < 0"
    by (simp add: cmds_at_simps zlib_bad_level_cfg_def sample_externs_def)
  from unknown bad
    compress_init_cfg_rejects [of unknown_cfg sample_externs sample_consts blank_world]
    compress_init_cfg_rejects [of zlib_bad_level_cfg sample_externs sample_consts blank_world 1
      "mk_model (Some ''zlib'') None None (Some zlib_val_level) (Some zlib_compress) (Some zlib_decompress)"
      zlib_val_level]
  show ?thesis by (simp add: cmds_at_simps)
qed

text \<open>
  C10. With a configuration present compress\_init always returns, and whenever it
  returns an error (the return value is not 0: unknown name, rejected level, threshold
  too high, or a table over the bound) the return value is -1, errno is EINVAL, and the
  handle keeps the \<open>compress_model\<close>, \<open>compress_level\<close> and \<open>compress_threshold\<close> it had
  before the call; only \<open>compress_max_model\<close> is refreshed (to 6).
\<close>

theorem compress_init_error_keeps_selection:
  "\<exists>r w'. compress_init X K w (Some cfg) = Inr (r, w') \<and>
     (r \<noteq> 0 \<longrightarrow>
        r = - 1 \<and> errno w' = EINVAL \<and>
        compress_model (knet_h w') = compress_model (knet_h w) \<and>
        compress_level (knet_h w') = compress_level (knet_h w) \<and>
        compress_threshold (knet_h w') = compress_threshold (knet_h w) \<and>
        compress_max_model (knet_h w') = 6 \<and>
        priv (knet_h w') = priv (knet_h w))"
proof (cases "6 > KNET_MAX_COMPRESS_METHODS K")
  case True
  then show ?thesis
    by (simp add: compress_init_unfold fail_EINVAL_def refresh_max_model_def)
next
  case False
  obtain r w' where run: "init_cfg X K (refresh_max_model w) cfg = Inr (r, w')"
    using init_cfg_total by blast
  have "r \<noteq> 0 \<longrightarrow> knet_h w' = knet_h (refresh_max_model w) \<and> errno w' = EINVAL \<and> r = - 1"
    using init_cfg_error [OF run] by blast
  with False run show ?thesis
    by (auto simp: compress_init_unfold refresh_max_model_def)
qed

theorem compress_init_error_keeps_selection_witness:
  "compress_init sample_externs sample_consts zlib_world (Some zlib_bad_level_cfg) =
     Inr (- 1, bad_level_result) \<and> (- 1 :: int) \<noteq> 0 \<and>
   errno bad_level_result = EINVAL \<and>
   compress_model (knet_h bad_level_result) = compress_model (knet_h zlib_world) \<and>
   compress_level (knet_h bad_level_result) = compress_level (knet_h zlib_world) \<and>
   compress_threshold (knet_h bad_level_result) = compress_threshold (knet_h zlib_world) \<and>
   compress_max_model (knet_h bad_level_result) = 6"
proof -
  have conc: "compress_init sample_externs sample_consts zlib_world (Some zlib_bad_level_cfg) =
      Inr (- 1, bad_level_result)"
    by (simp add: compress_init_unfold init_cfg_def get_model_eq val_level_def cmds_at_simps
        fail_EINVAL_def sample_consts_def sample_externs_def zlib_bad_level_cfg_def
        bad_level_result_def)
  from compress_init_error_keeps_selection
    [of sample_externs sample_consts zlib_world zlib_bad_level_cfg]
  obtain r w' where
    run: "compress_init sample_externs sample_consts zlib_world (Some zlib_bad_level_cfg) = Inr (r, w')"
    and keep: "r \<noteq> 0 \<longrightarrow>
        r = - 1 \<and> errno w' = EINVAL \<and>
        compress_model (knet_h w') = compress_model (knet_h zlib_world) \<and>
        compress_level (knet_h w') = compress_level (knet_h zlib_world) \<and>
        compress_threshold (knet_h w') = compress_threshold (knet_h zlib_world) \<and>
        compress_max_model (knet_h w') = 6 \<and>
        priv (knet_h w') = priv (knet_h zlib_world)"
    by blast
  from run conc have r: "r = - 1" and w': "w' = bad_level_result"
    by simp_all
  from keep have "errno bad_level_result = EINVAL \<and>
      compress_model (knet_h bad_level_result) = compress_model (knet_h zlib_world) \<and>
      compress_level (knet_h bad_level_result) = compress_level (knet_h zlib_world) \<and>
      compress_threshold (knet_h bad_level_result) = compress_threshold (knet_h zlib_world) \<and>
      compress_max_model (knet_h bad_level_result) = 6"
    unfolding r w' by simp
  with conc show ?thesis
    by simp
qed

subsection \<open>compress\_init without a configuration\<close>

text \<open>
  C4, as stated, fails: "called with an absent configuration, compress\_init invokes the
  init hook of every algorithm that declares one and returns success". When the hook
  fails, compress\_init returns -1: here \<open>lzo2_init\<close> answers -1.
\<close>

theorem compress_init_absent_cfg_counterexample:
  "compress_init failing_init_externs sample_consts blank_world None =
     Inr (- 1, blank_world\<lparr>knet_h := (knet_h blank_world)\<lparr>compress_max_model := 6\<rparr>,
                            errno := EINVAL, calls := [Call_init lzo2_init 4]\<rparr>)"
  by (simp add: compress_init_unfold init_loop_0 sample_consts_def failing_init_externs_def
      sample_externs_def blank_world_def refresh_max_model_def record_call_def)

text \<open>
  C4, amended. Let the table fit the bound \<open>KNET_MAX_COMPRESS_METHODS\<close>. Called with an
  absent configuration, compress\_init invokes the init hook of every algorithm of the
  table that declares one, in table order (\<open>lzo2_init\<close> with index 4 is the only one),
  and leaves the handle as the hook left it; it returns 0 when the hook returns a value
  that is not negative, and -1 with errno EINVAL when the hook returns a negative value.
\<close>

theorem compress_init_absent_cfg:
  assumes "6 \<le> KNET_MAX_COMPRESS_METHODS K"
  shows "\<exists>r w'. compress_init X K w None = Inr (r, w') \<and>
           calls w' = calls w @ [Call_init lzo2_init 4] \<and>
           knet_h w' = snd (call_init X lzo2_init (knet_h (refresh_max_model w)) 4) \<and>
           (if fst (call_init X lzo2_init (knet_h (refresh_max_model w)) 4) < 0
            then r = - 1 \<and> errno w' = EINVAL else r = 0 \<and> errno w' = errno w)"
  using assms
  by (simp add: compress_init_unfold init_loop_0 record_call_def refresh_max_model_def)

theorem compress_init_absent_cfg_witness:
  "(6::int) \<le> KNET_MAX_COMPRESS_METHODS sample_consts \<and>
   (\<exists>w'. compress_init sample_externs sample_consts blank_world None = Inr (0, w') \<and>
      calls w' = [Call_init lzo2_init 4])"
proof -
  have fits: "6 \<le> KNET_MAX_COMPRESS_METHODS sample_consts"
    by (simp add: sample_consts_def)
  have ok: "\<not> fst (call_init sample_externs lzo2_init (knet_h (refresh_max_model blank_world)) 4) < 0"
    by (simp add: sample_externs_def)
  have none_yet: "calls blank_world = []"
    by (simp add: blank_world_def)
  from compress_init_absent_cfg [OF fits, of sample_externs blank_world] ok
  have "\<exists>w'. compress_init sample_externs sample_consts blank_world None = Inr (0, w') \<and>
      calls w' = calls blank_world @ [Call_init lzo2_init 4]"
    by auto
  with fits none_yet show ?thesis
    by simp
qed

subsection \<open>compress and decompress\<close>

text \<open>
  C5. On every handle whose \<open>compress_model\<close> is a codec index (1 to 6), \<open>compress\<close>
  calls the compressor of the table entry at that index: zlib, lz4, lz4hc, lzo2, lzma,
  bzip2 in this order. For every index \<open>j\<close> from 1 to 6 that it is given, and on every
  handle, whatever the handle's own \<open>compress_model\<close> is (a codec, none, or anything
  else), \<open>decompress\<close> calls the decompressor of the table entry at \<open>j\<close>: zlib, lz4,
  lz4 (for lz4hc), lzo2, lzma, bzip2. \<open>compress\<close> takes no index and \<open>decompress\<close> does
  not look at the handle's.
\<close>

theorem compress_dispatch:
  "(1 \<le> compress_model (knet_h w) \<and> compress_model (knet_h w) \<le> 6 \<longrightarrow>
      cmds_at (compress_model (knet_h w)) \<noteq> None \<and>
      compress_f (the (cmds_at (compress_model (knet_h w)))) =
        Some ([zlib_compress, lz4_compress, lz4hc_compress, lzo2_compress, lzma_compress,
               bzip2_compress] ! nat (compress_model (knet_h w) - 1)) \<and>
      compress X w buf_in n =
        Inr (call_compress X
               ([zlib_compress, lz4_compress, lz4hc_compress, lzo2_compress, lzma_compress,
                 bzip2_compress] ! nat (compress_model (knet_h w) - 1))
               (knet_h w) buf_in n,
             w\<lparr>calls := calls w @
                  [Call_compress
                     ([zlib_compress, lz4_compress, lz4hc_compress, lzo2_compress, lzma_compress,
                       bzip2_compress] ! nat (compress_model (knet_h w) - 1))]\<rparr>)) \<and>
   (1 \<le> j \<and> j \<le> 6 \<longrightarrow>
      cmds_at j \<noteq> None \<and>
      decompress_f (the (cmds_at j)) =
        Some ([zlib_decompress, lz4_decompress, lz4_decompress, lzo2_decompress,
               lzma_decompress, bzip2_decompress] ! nat (j - 1)) \<and>
      decompress X w j buf_in n =
        Inr (call_decompress X
               ([zlib_decompress, lz4_decompress, lz4_decompress, lzo2_decompress,
                 lzma_decompress, bzip2_decompress] ! nat (j - 1))
               (knet_h w) buf_in n,
             w\<lparr>calls := calls w @
                  [Call_decompress
                     ([zlib_decompress, lz4_decompress, lz4_decompress, lzo2_decompress,
                       lzma_decompress, bzip2_decompress] ! nat (j - 1))]\<rparr>))"
proof (intro conjI impI)
  assume sel: "1 \<le> compress_model (knet_h w) \<and> compress_model (knet_h w) \<le> 6"
  define i where "i = compress_model (knet_h w)"
  have ci: "i = 1 \<or> i = 2 \<or> i = 3 \<or> i = 4 \<or> i = 5 \<or> i = 6"
    using sel unfolding i_def by arith
  have "cmds_at i \<noteq> None \<and>
      compress_f (the (cmds_at i)) =
        Some ([zlib_compress, lz4_compress, lz4hc_compress, lzo2_compress, lzma_compress,
               bzip2_compress] ! nat (i - 1)) \<and>
      (compress_model (knet_h w) = i \<longrightarrow>
       compress X w buf_in n =
        Inr (call_compress X
               ([zlib_compress, lz4_compress, lz4hc_compress, lzo2_compress, lzma_compress,
                 bzip2_compress] ! nat (i - 1))
               (knet_h w) buf_in n,
             w\<lparr>calls := calls w @
                  [Call_compress
                     ([zlib_compress, lz4_compress, lz4hc_compress, lzo2_compress, lzma_compress,
                       bzip2_compress] ! nat (i - 1))]\<rparr>))"
    using ci by (elim disjE) (simp_all add: compress_def cmds_at_simps record_call_def)
  then show "cmds_at (compress_model (knet_h w)) \<noteq> None"
    and "compress_f (the (cmds_at (compress_model (knet_h w)))) =
        Some ([zlib_compress, lz4_compress, lz4hc_compress, lzo2_compress, lzma_compress,
               bzip2_compress] ! nat (compress_model (knet_h w) - 1))"
    and "compress X w buf_in n =
        Inr (call_compress X
               ([zlib_compress, lz4_compress, lz4hc_compress, lzo2_compress, lzma_compress,
                 bzip2_compress] ! nat (compress_model (knet_h w) - 1))
               (knet_h w) buf_in n,
             w\<lparr>calls := calls w @
                  [Call_compress
                     ([zlib_compress, lz4_compress, lz4hc_compress, lzo2_compress, lzma_compress,
                       bzip2_compress] ! nat (compress_model (knet_h w) - 1))]\<rparr>)"
    unfolding i_def by blast+
next
  assume "1 \<le> j \<and> j \<le> 6"
  then have cj: "j = 1 \<or> j = 2 \<or> j = 3 \<or> j = 4 \<or> j = 5 \<or> j = 6"
    by arith
  have "cmds_at j \<noteq> None \<and>
      decompress_f (the (cmds_at j)) =
        Some ([zlib_decompress, lz4_decompress, lz4_decompress, lzo2_decompress,
               lzma_decompress, bzip2_decompress] ! nat (j - 1)) \<and>
      decompress X w j buf_in n =
        Inr (call_decompress X
               ([zlib_decompress, lz4_decompress, lz4_decompress, lzo2_decompress,
                 lzma_decompress, bzip2_decompress] ! nat (j - 1))
               (knet_h w) buf_in n,
             w\<lparr>calls := calls w @
                  [Call_decompress
                     ([zlib_decompress, lz4_decompress, lz4_decompress, lzo2_decompress,
                       lzma_decompress, bzip2_decompress] ! nat (j - 1))]\<rparr>)"
    using cj by (elim disjE) (simp_all add: decompress_def cmds_at_simps record_call_def)
  then show "cmds_at j \<noteq> None"
    and "decompress_f (the (cmds_at j)) =
        Some ([zlib_decompress, lz4_decompress, lz4_decompress, lzo2_decompress,
               lzma_decompress, bzip2_decompress] ! nat (j - 1))"
    and "decompress X w j buf_in n =
        Inr (call_decompress X
               ([zlib_decompress, lz4_decompress, lz4_decompress, lzo2_decompress,
                 lzma_decompress, bzip2_decompress] ! nat (j - 1))
               (knet_h w) buf_in n,
             w\<lparr>calls := calls w @
                  [Call_decompress
                     ([zlib_decompress, lz4_decompress, lz4_decompress, lzo2_decompress,
                       lzma_decompress, bzip2_decompress] ! nat (j - 1))]\<rparr>)"
    by blast+
qed

theorem compress_dispatch_witness:
  "1 \<le> compress_model (knet_h zlib_world) \<and> compress_model (knet_h zlib_world) \<le> 6 \<and>
   compress sample_externs zlib_world [1, 2, 3] 10 =
     Inr ((0, [1, 2, 3]), zlib_world\<lparr>calls := [Call_compress zlib_compress]\<rparr>) \<and>
   decompress sample_externs zlib_world 2 [1, 2, 3] 10 =
     Inr ((0, [1, 2, 3]), zlib_world\<lparr>calls := [Call_decompress lz4_decompress]\<rparr>) \<and>
   compress_model (knet_h blank_world) = 0 \<and>
   decompress sample_externs blank_world 3 [1, 2, 3] 10 =
     Inr ((0, [1, 2, 3]), blank_world\<lparr>calls := [Call_decompress lz4_decompress]\<rparr>)"
proof -
  have sel: "compress_model (knet_h zlib_world) = 1" and none: "compress_model (knet_h blank_world) = 0"
    and log: "calls zlib_world = []" "calls blank_world = []"
    by (simp_all add: zlib_world_def blank_world_def)
  have hooks: "call_compress sample_externs f h b k = (0, b)"
    "call_decompress sample_externs g h b k = (0, b)" for f g h b k
    by (simp_all add: sample_externs_def)
  have c: "compress sample_externs zlib_world [1, 2, 3] 10 =
     Inr ((0, [1, 2, 3]), zlib_world\<lparr>calls := [Call_compress zlib_compress]\<rparr>)"
    using compress_dispatch [where w = zlib_world and j = 2 and X = sample_externs and buf_in = "[1, 2, 3]"
        and n = 10]
    by (simp add: sel log hooks)
  have d: "decompress sample_externs zlib_world 2 [1, 2, 3] 10 =
     Inr ((0, [1, 2, 3]), zlib_world\<lparr>calls := [Call_decompress lz4_decompress]\<rparr>)"
    using compress_dispatch [where w = zlib_world and j = 2 and X = sample_externs and buf_in = "[1, 2, 3]"
        and n = 10]
    by (simp add: sel log hooks)
  have d0: "decompress sample_externs blank_world 3 [1, 2, 3] 10 =
     Inr ((0, [1, 2, 3]), blank_world\<lparr>calls := [Call_decompress lz4_decompress]\<rparr>)"
    using compress_dispatch [where w = blank_world and j = 3 and X = sample_externs and buf_in = "[1, 2, 3]"
        and n = 10]
    by (simp add: none log hooks)
  from sel none c d d0 show ?thesis
    by simp
qed

subsection \<open>compress\_fini\<close>

text \<open>
  C6. Let \<open>KNET_MAX_COMPRESS_METHODS\<close> be above 4, the index of lzo2. On every handle,
  whether compress\_init has run on it or not, and whatever the hooks do, compress\_fini
  returns and has invoked the fini hook of every algorithm of the table that declares
  one (\<open>lzo2_fini\<close> with index 4 is the only one), leaving the handle as the hook
  left it. With the fini hook of the specification (it releases the private data the
  handle holds for the algorithm), compress\_fini is idempotent: a second call invokes
  the same hook again and leaves the handle and errno as the first call left them; and
  on a handle that holds no private data for lzo2, as one on which compress\_init has
  never run, compress\_fini leaves the handle as it found it.
\<close>

theorem compress_fini_hooks:
  assumes "4 < KNET_MAX_COMPRESS_METHODS K"
  shows "(\<exists>w1. compress_fini X K w = Inr w1 \<and>
            calls w1 = calls w @ [Call_fini lzo2_fini 4] \<and>
            knet_h w1 = call_fini X lzo2_fini (knet_h w) 4 \<and> errno w1 = errno w) \<and>
         (\<exists>v1 v2. compress_fini (X\<lparr>call_fini := release_private_data\<rparr>) K w = Inr v1 \<and>
            compress_fini (X\<lparr>call_fini := release_private_data\<rparr>) K v1 = Inr v2 \<and>
            calls v1 = calls w @ [Call_fini lzo2_fini 4] \<and>
            knet_h v1 = (knet_h w)\<lparr>priv := (priv (knet_h w))(4 := None)\<rparr> \<and>
            errno v1 = errno w \<and>
            calls v2 = calls v1 @ [Call_fini lzo2_fini 4] \<and>
            knet_h v2 = knet_h v1 \<and> errno v2 = errno v1 \<and>
            (priv (knet_h w) 4 = None \<longrightarrow> knet_h v1 = knet_h w))"
proof (intro conjI)
  show "\<exists>w1. compress_fini X K w = Inr w1 \<and>
            calls w1 = calls w @ [Call_fini lzo2_fini 4] \<and>
            knet_h w1 = call_fini X lzo2_fini (knet_h w) 4 \<and> errno w1 = errno w"
    using assms by (simp add: compress_fini_def fini_loop_0 record_call_def)
next
  have same: "priv h 4 = None \<Longrightarrow> h\<lparr>priv := (priv h)(4 := None)\<rparr> = h"
    for h :: "(int \<Rightarrow> 'b option) knet_handle"
    by (simp add: fun_upd_idem)
  show "\<exists>v1 v2. compress_fini (X\<lparr>call_fini := release_private_data\<rparr>) K w = Inr v1 \<and>
            compress_fini (X\<lparr>call_fini := release_private_data\<rparr>) K v1 = Inr v2 \<and>
            calls v1 = calls w @ [Call_fini lzo2_fini 4] \<and>
            knet_h v1 = (knet_h w)\<lparr>priv := (priv (knet_h w))(4 := None)\<rparr> \<and>
            errno v1 = errno w \<and>
            calls v2 = calls v1 @ [Call_fini lzo2_fini 4] \<and>
            knet_h v2 = knet_h v1 \<and> errno v2 = errno v1 \<and>
            (priv (knet_h w) 4 = None \<longrightarrow> knet_h v1 = knet_h w)"
    using assms same [of "knet_h w"]
    by (simp add: compress_fini_def fini_loop_0 record_call_def release_private_data_def)
qed

theorem compress_fini_hooks_witness:
  "(4::int) < KNET_MAX_COMPRESS_METHODS sample_consts \<and>
   priv (knet_h never_initialised_world) 4 = None \<and>
   (\<exists>v1 v2.
      compress_fini (private_data_externs\<lparr>call_fini := release_private_data\<rparr>) sample_consts
        never_initialised_world = Inr v1 \<and>
      compress_fini (private_data_externs\<lparr>call_fini := release_private_data\<rparr>) sample_consts
        v1 = Inr v2 \<and>
      knet_h v1 = knet_h never_initialised_world \<and> knet_h v2 = knet_h v1) \<and>
   priv (knet_h lzo2_ready_world) 4 = Some 16384 \<and>
   (\<exists>v1 v2.
      compress_fini (private_data_externs\<lparr>call_fini := release_private_data\<rparr>) sample_consts
        lzo2_ready_world = Inr v1 \<and>
      compress_fini (private_data_externs\<lparr>call_fini := release_private_data\<rparr>) sample_consts
        v1 = Inr v2 \<and>
      priv (knet_h v1) 4 = None \<and> knet_h v2 = knet_h v1)"
proof -
  have fits: "4 < KNET_MAX_COMPRESS_METHODS sample_consts"
    by (simp add: sample_consts_def)
  have blank: "priv (knet_h never_initialised_world) 4 = None"
    by (simp add: never_initialised_world_def)
  have ready: "priv (knet_h lzo2_ready_world) 4 = Some 16384"
    by (simp add: lzo2_ready_world_def)
  from compress_fini_hooks [OF fits, of private_data_externs never_initialised_world] blank
  have a: "\<exists>v1 v2.
      compress_fini (private_data_externs\<lparr>call_fini := release_private_data\<rparr>) sample_consts
        never_initialised_world = Inr v1 \<and>
      compress_fini (private_data_externs\<lparr>call_fini := release_private_data\<rparr>) sample_consts
        v1 = Inr v2 \<and>
      knet_h v1 = knet_h never_initialised_world \<and> knet_h v2 = knet_h v1"
    by blast
  from compress_fini_hooks [OF fits, of private_data_externs lzo2_ready_world]
  obtain v1 v2 where
    r1: "compress_fini (private_data_externs\<lparr>call_fini := release_private_data\<rparr>) sample_consts
        lzo2_ready_world = Inr v1"
    and r2: "compress_fini (private_data_externs\<lparr>call_fini := release_private_data\<rparr>) sample_consts
        v1 = Inr v2"
    and h1: "knet_h v1 = (knet_h lzo2_ready_world)\<lparr>priv := (priv (knet_h lzo2_ready_world))(4 := None)\<rparr>"
    and h2: "knet_h v2 = knet_h v1"
    by blast
  from h1 have "priv (knet_h v1) 4 = None"
    by simp
  with r1 r2 h2 have b: "\<exists>v1 v2.
      compress_fini (private_data_externs\<lparr>call_fini := release_private_data\<rparr>) sample_consts
        lzo2_ready_world = Inr v1 \<and>
      compress_fini (private_data_externs\<lparr>call_fini := release_private_data\<rparr>) sample_consts
        v1 = Inr v2 \<and>
      priv (knet_h v1) 4 = None \<and> knet_h v2 = knet_h v1"
    by blast
  from fits blank a ready b show ?thesis
    by (intro conjI)
qed

section \<open>Properties of the test harness\<close>

subsection \<open>The port loop\<close>

lemma dyn_ports_decisive:
  assumes "port < 65536"
    and "knet_strtoaddr A (if family = AF_INET6 then ''::1'' else addr) port = Api_ok"
    and "knet_link_set_config A transport (if family = AF_INET6 then ''::1'' else addr, port)
           (if dynamic \<noteq> 0 then None else lo1) = Api_error e"
    and "e \<noteq> EADDRINUSE"
  shows "dyn_ports A transport family dynamic addr lo1 port err savederrno lo0 =
     (if e = EPROTONOSUPPORT \<and> transport = KNET_TRANSPORT_SCTP then - 2 else - 1, e,
      Some (if family = AF_INET6 then ''::1'' else addr, port))"
proof -
  define host where "host = (if family = AF_INET6 then ''::1'' else addr)"
  have s: "knet_strtoaddr A host port = Api_ok"
    using assms(2) by (simp add: host_def)
  have c: "(if dynamic \<noteq> 0 then knet_link_set_config A transport (host, port) None
            else knet_link_set_config A transport (host, port) lo1) = Api_error e"
    using assms(3) by (simp add: host_def split: if_splits)
  have "dyn_ports A transport family dynamic addr lo1 port err savederrno lo0 =
     (if e = EPROTONOSUPPORT \<and> transport = KNET_TRANSPORT_SCTP then - 2 else - 1, e,
      Some (host, port))"
    apply (subst dyn_ports.simps)
    apply (fold host_def)
    apply (simp only: Let_def s c api_ret.simps api_errno.simps)
    using assms(1,4) apply simp
    done
  then show ?thesis
    by (simp add: host_def)
qed

lemma dyn_ports_busy:
  assumes "port < 65536"
    and "knet_strtoaddr A (if family = AF_INET6 then ''::1'' else addr) port = Api_ok"
    and "knet_link_set_config A transport (if family = AF_INET6 then ''::1'' else addr, port)
           (if dynamic \<noteq> 0 then None else lo1) = Api_error EADDRINUSE"
  shows "dyn_ports A transport family dynamic addr lo1 port err savederrno lo0 =
     dyn_ports A transport family dynamic addr lo1 (port + 1) (- 1) EADDRINUSE
       (Some (if family = AF_INET6 then ''::1'' else addr, port))"
proof -
  define host where "host = (if family = AF_INET6 then ''::1'' else addr)"
  have s: "knet_strtoaddr A host port = Api_ok"
    using assms(2) by (simp add: host_def)
  have c: "(if dynamic \<noteq> 0 then knet_link_set_config A transport (host, port) None
            else knet_link_set_config A transport (host, port) lo1) = Api_error EADDRINUSE"
    using assms(3) by (simp add: host_def split: if_splits)
  have "dyn_ports A transport family dynamic addr lo1 port err savederrno lo0 =
     dyn_ports A transport family dynamic addr lo1 (port + 1) (- 1) EADDRINUSE (Some (host, port))"
    apply (subst dyn_ports.simps)
    apply (fold host_def)
    apply (simp only: Let_def s c api_ret.simps api_errno.simps)
    using assms(1) apply simp
    done
  then show ?thesis
    by (simp add: host_def)
qed

text \<open>Ports that are in use are passed over, whatever \<open>err\<close>, \<open>savederrno\<close> and \<open>lo0\<close>
  were on entry: by induction on the number \<open>k\<close> of ports in use from \<open>p0\<close> on.\<close>

lemma dyn_ports_skip:
  assumes busy: "\<forall>q. p0 \<le> q \<and> q < p0 + k \<longrightarrow>
        knet_strtoaddr A (if family = AF_INET6 then ''::1'' else addr) q = Api_ok \<and>
        knet_link_set_config A transport (if family = AF_INET6 then ''::1'' else addr, q)
           (if dynamic \<noteq> 0 then None else lo1) = Api_error EADDRINUSE"
    and "p0 + k < 65536"
    and "knet_strtoaddr A (if family = AF_INET6 then ''::1'' else addr) (p0 + k) = Api_ok"
    and "knet_link_set_config A transport (if family = AF_INET6 then ''::1'' else addr, p0 + k)
           (if dynamic \<noteq> 0 then None else lo1) = Api_error e"
    and "e \<noteq> EADDRINUSE"
  shows "dyn_ports A transport family dynamic addr lo1 p0 err savederrno lo0 =
     (if e = EPROTONOSUPPORT \<and> transport = KNET_TRANSPORT_SCTP then - 2 else - 1, e,
      Some (if family = AF_INET6 then ''::1'' else addr, p0 + k))"
  using assms
proof (induction k arbitrary: p0 err savederrno lo0)
  case 0
  then show ?case
    using dyn_ports_decisive [of p0 A family addr transport dynamic lo1 e] by simp
next
  case (Suc k)
  have here: "knet_strtoaddr A (if family = AF_INET6 then ''::1'' else addr) p0 = Api_ok \<and>
        knet_link_set_config A transport (if family = AF_INET6 then ''::1'' else addr, p0)
           (if dynamic \<noteq> 0 then None else lo1) = Api_error EADDRINUSE"
    using Suc.prems(1) by simp
  have lt: "p0 < 65536" using Suc.prems(2) by simp
  have step: "dyn_ports A transport family dynamic addr lo1 p0 err savederrno lo0 =
     dyn_ports A transport family dynamic addr lo1 (Suc p0) (- 1) EADDRINUSE
       (Some (if family = AF_INET6 then ''::1'' else addr, p0))"
    using dyn_ports_busy [OF lt, of A family addr transport dynamic lo1] here by simp
  have "dyn_ports A transport family dynamic addr lo1 (Suc p0) (- 1) EADDRINUSE
       (Some (if family = AF_INET6 then ''::1'' else addr, p0)) =
     (if e = EPROTONOSUPPORT \<and> transport = KNET_TRANSPORT_SCTP then - 2 else - 1, e,
      Some (if family = AF_INET6 then ''::1'' else addr, Suc p0 + k))"
  proof (rule Suc.IH)
    show "\<forall>q. Suc p0 \<le> q \<and> q < Suc p0 + k \<longrightarrow>
        knet_strtoaddr A (if family = AF_INET6 then ''::1'' else addr) q = Api_ok \<and>
        knet_link_set_config A transport (if family = AF_INET6 then ''::1'' else addr, q)
           (if dynamic \<noteq> 0 then None else lo1) = Api_error EADDRINUSE"
      using Suc.prems(1) by simp
    show "Suc p0 + k < 65536" using Suc.prems(2) by simp
    show "knet_strtoaddr A (if family = AF_INET6 then ''::1'' else addr) (Suc p0 + k) = Api_ok"
      using Suc.prems(3) by simp
    show "knet_link_set_config A transport (if family = AF_INET6 then ''::1'' else addr, Suc p0 + k)
           (if dynamic \<noteq> 0 then None else lo1) = Api_error e"
      using Suc.prems(4) by simp
    show "e \<noteq> EADDRINUSE" by (rule Suc.prems(5))
  qed
  with step show ?case by simp
qed

text \<open>
  C8. Let the ports from 1025 up to \<open>p\<close> be in use (the address converts and the link
  configuration fails with EADDRINUSE, so the loop goes on to the next port), and let the
  link configuration fail at port \<open>p\<close> with an errno \<open>e\<close> other than EADDRINUSE. If
  \<open>e\<close> is EPROTONOSUPPORT and the transport is SCTP, \<open>dyn_knet_link_set_config\<close> returns
  -2 and \<open>FAIL_ON_ERR\<close> exits with SKIP; for every other \<open>e\<close> and for every other
  transport it returns -1 and \<open>FAIL_ON_ERR\<close> exits with FAIL.
\<close>

theorem dyn_link_set_config_errors:
  fixes A :: link_api and family dynamic e :: int and addr host :: string
    and lo1 dst :: "sockaddr option"
  defines "host \<equiv> (if family = AF_INET6 then ''::1'' else addr)"
    and "dst \<equiv> (if dynamic \<noteq> 0 then None else lo1)"
  assumes busy: "\<forall>q. 1025 \<le> q \<and> q < p \<longrightarrow>
        knet_strtoaddr A host q = Api_ok \<and>
        knet_link_set_config A transport (host, q) dst = Api_error EADDRINUSE"
    and range: "1025 \<le> p" "p < 65536"
    and addr_ok: "knet_strtoaddr A host p = Api_ok"
    and failed: "knet_link_set_config A transport (host, p) dst = Api_error e" "e \<noteq> EADDRINUSE"
  shows "fst (dyn_knet_link_set_config A transport family dynamic addr lo1) =
           (if e = EPROTONOSUPPORT \<and> transport = KNET_TRANSPORT_SCTP then - 2 else - 1) \<and>
         FAIL_ON_ERR (fst (dyn_knet_link_set_config A transport family dynamic addr lo1)) =
           Some (if e = EPROTONOSUPPORT \<and> transport = KNET_TRANSPORT_SCTP then SKIP else FAIL)"
proof -
  obtain k where k: "p = 1025 + k"
    using range(1) by (auto simp: le_iff_add)
  have "dyn_ports A transport family dynamic addr lo1 1025 0 0 None =
     (if e = EPROTONOSUPPORT \<and> transport = KNET_TRANSPORT_SCTP then - 2 else - 1, e,
      Some (if family = AF_INET6 then ''::1'' else addr, 1025 + k))"
    using busy range(2) addr_ok failed unfolding k host_def dst_def
    by (intro dyn_ports_skip)
  then show ?thesis
    by (simp add: dyn_knet_link_set_config_def FAIL_ON_ERR_def)
qed

theorem dyn_link_set_config_errors_witness:
  "fst (dyn_knet_link_set_config no_sctp_api KNET_TRANSPORT_SCTP AF_INET 1 ''127.0.0.1'' None) = - 2 \<and>
   FAIL_ON_ERR
     (fst (dyn_knet_link_set_config no_sctp_api KNET_TRANSPORT_SCTP AF_INET 1 ''127.0.0.1'' None)) =
     Some SKIP \<and>
   fst (dyn_knet_link_set_config no_sctp_api KNET_TRANSPORT_UDP AF_INET 1 ''127.0.0.1'' None) = - 1 \<and>
   FAIL_ON_ERR
     (fst (dyn_knet_link_set_config no_sctp_api KNET_TRANSPORT_UDP AF_INET 1 ''127.0.0.1'' None)) =
     Some FAIL"
proof -
  have busy: "\<forall>q. 1025 \<le> q \<and> q < 1026 \<longrightarrow>
        knet_strtoaddr no_sctp_api (if AF_INET = AF_INET6 then ''::1'' else ''127.0.0.1'') q = Api_ok \<and>
        knet_link_set_config no_sctp_api t
          (if AF_INET = AF_INET6 then ''::1'' else ''127.0.0.1'', q)
          (if (1::int) \<noteq> 0 then None else None) = Api_error EADDRINUSE" for t
  proof (intro allI impI)
    fix q :: nat
    assume "1025 \<le> q \<and> q < 1026"
    then have "q = 1025" by simp
    then show "knet_strtoaddr no_sctp_api (if AF_INET = AF_INET6 then ''::1'' else ''127.0.0.1'') q = Api_ok \<and>
        knet_link_set_config no_sctp_api t
          (if AF_INET = AF_INET6 then ''::1'' else ''127.0.0.1'', q)
          (if (1::int) \<noteq> 0 then None else None) = Api_error EADDRINUSE"
      by (simp add: no_sctp_api_def)
  qed
  have addr_ok: "knet_strtoaddr no_sctp_api (if AF_INET = AF_INET6 then ''::1'' else ''127.0.0.1'') 1026 = Api_ok"
    by (simp add: no_sctp_api_def)
  have failed: "knet_link_set_config no_sctp_api t
          (if AF_INET = AF_INET6 then ''::1'' else ''127.0.0.1'', 1026)
          (if (1::int) \<noteq> 0 then None else None) = Api_error EPROTONOSUPPORT" for t
    by (simp add: no_sctp_api_def)
  have other: "EPROTONOSUPPORT \<noteq> EADDRINUSE"
    by (simp add: EPROTONOSUPPORT_def EADDRINUSE_def)
  have udp: "KNET_TRANSPORT_UDP \<noteq> KNET_TRANSPORT_SCTP"
    by (simp add: KNET_TRANSPORT_UDP_def KNET_TRANSPORT_SCTP_def)
  have lo: "(1025::nat) \<le> 1026" and hi: "(1026::nat) < 65536"
    by simp_all
  from dyn_link_set_config_errors [OF busy lo hi addr_ok failed other]
  have sctp_case: "fst (dyn_knet_link_set_config no_sctp_api KNET_TRANSPORT_SCTP AF_INET 1 ''127.0.0.1'' None) = - 2 \<and>
   FAIL_ON_ERR
     (fst (dyn_knet_link_set_config no_sctp_api KNET_TRANSPORT_SCTP AF_INET 1 ''127.0.0.1'' None)) =
     Some SKIP"
    by (simp add: FAIL_ON_ERR_def)
  from dyn_link_set_config_errors [OF busy lo hi addr_ok failed other] udp
  have udp_case: "fst (dyn_knet_link_set_config no_sctp_api KNET_TRANSPORT_UDP AF_INET 1 ''127.0.0.1'' None) = - 1 \<and>
   FAIL_ON_ERR
     (fst (dyn_knet_link_set_config no_sctp_api KNET_TRANSPORT_UDP AF_INET 1 ''127.0.0.1'' None)) =
     Some FAIL"
    by (simp add: FAIL_ON_ERR_def)
  from sctp_case udp_case show ?thesis
    by blast
qed

subsection \<open>The receive loop and the end of the test\<close>



subsection \<open>The teardown\<close>

text \<open>The order is kept on a handle whose links sit in the lowest slots, where
  \<open>link_ids[j]\<close> is \<open>j\<close>: the contract can be met.\<close>

lemma knet_handle_stop_dense:
  "fst (knet_handle_stop (Some dense_state)) = 0 \<and>
   teardown_in_order (log_of (knet_handle_stop (Some dense_state)))"
  by (intro conjI) code_simp+

text \<open>
  C7 says that the teardown of \<open>knet_handle_stop\<close> keeps the order: forwarding off before
  a link is touched, every enabled link disabled before its configuration is cleared,
  the links of a host cleared before the host is removed, the handle freed after the
  hosts are removed. The code breaks it on a handle whose host has its only link in
  slot 1: \<open>link_ids\<close> is \<open>[1]\<close>, the loop asks whether link \<open>link_ids[0] = 1\<close> is
  enabled, but clears link \<open>j = 0\<close>, and then calls \<open>knet_host_remove\<close> while link 1
  of the host is still configured. These are the first six library calls, and the links
  the host has left at the sixth.
\<close>

theorem knet_handle_stop_gap:
  "take 6 (map fst (log_of (knet_handle_stop (Some gap_state)))) =
     [Handle_setfwd False, Host_get_host_list, Link_get_link_list 1, Link_get_enable 1 1,
      Link_clear_config 1 0, Host_remove 1] \<and>
   links_left (snd (log_of (knet_handle_stop (Some gap_state)) ! 5)) 1 = [1] \<and>
   \<not> teardown_in_order (log_of (knet_handle_stop (Some gap_state)))"
  by (intro conjI) code_simp+

end
